theory Spec2Isabelle
  imports Complex_Main "HOL-Library.Sublist"
begin

section \<open>Strings\<close>

text \<open>
  JavaScript strings are modelled as \<open>string\<close> (a list of characters); \<open>s.length\<close> is
  \<open>length s\<close>, \<open>c.repeat(n)\<close> is \<open>replicate n c\<close>, \<open>+\<close> is \<open>@\<close>.
  The backslash cannot be written inside a literal, so it has a name.
\<close>

definition bsl :: char where
  "bsl = CHR 0x5C"

text \<open>\<open>s.includes(sub)\<close>: \<open>sub\<close> occurs in \<open>s\<close> as a contiguous run.\<close>

fun includes_str :: "string \<Rightarrow> string \<Rightarrow> bool" where
  "includes_str [] sub = (sub = [])"
| "includes_str (c # cs) sub = (prefix sub (c # cs) \<or> includes_str cs sub)"

section \<open>The regular expressions of the runtime\<close>

text \<open>
  The regular expressions of the source are terms of \<open>re\<close>, and the matcher is the
  backtracking matcher of the language: \<open>ms s r st\<close> lists, in the order the engine tries
  them, the states in which \<open>r\<close> can stop when it starts in \<open>st\<close>. A state is the rest
  of the subject \<open>s\<close> and the captures made so far, the latest first. Quantifiers are
  greedy, and an iteration of \<open>*\<close> that consumes nothing is not repeated.
  Characters are the code units below U+0100.
\<close>

datatype re =
    Cls "char \<Rightarrow> bool"
  | Eps
  | Seq re re
  | Alt re re
  | Opt re
  | Star re
  | Group nat re
  | NotAhead re
  | Bol
  | Eol

type_synonym captures = "(nat \<times> string) list"

fun ms :: "string \<Rightarrow> re \<Rightarrow> string \<times> captures \<Rightarrow> (string \<times> captures) list" where
  "ms s (Cls P) (rest, caps) =
     (case rest of [] \<Rightarrow> [] | c # cs \<Rightarrow> if P c then [(cs, caps)] else [])"
| "ms s Eps st = [st]"
| "ms s (Seq a b) st = concat (map (ms s b) (ms s a st))"
| "ms s (Alt a b) st = ms s a st @ ms s b st"
| "ms s (Opt a) st = ms s a st @ [st]"
| "ms s (Star a) (rest, caps) =
     concat (map (\<lambda>(rest', caps').
                    if length rest' < length rest then ms s (Star a) (rest', caps') else [])
                 (ms s a (rest, caps)))
     @ [(rest, caps)]"
| "ms s (Group k a) (rest, caps) =
     map (\<lambda>(rest', caps'). (rest', (k, take (length rest - length rest') rest) # caps'))
         (ms s a (rest, caps))"
| "ms s (NotAhead a) st = (if ms s a st = [] then [st] else [])"
| "ms s Bol (rest, caps) = (if length rest = length s then [(rest, caps)] else [])"
| "ms s Eol (rest, caps) = (if rest = [] then [(rest, caps)] else [])"

fun seqs :: "re list \<Rightarrow> re" where
  "seqs [] = Eps"
| "seqs [r] = r"
| "seqs (r # rs) = Seq r (seqs rs)"

definition chr :: "char \<Rightarrow> re" where
  "chr c = Cls (\<lambda>x. x = c)"

definition lit :: "string \<Rightarrow> re" where
  "lit w = seqs (map chr w)"

definition oneOf :: "string \<Rightarrow> re" where
  "oneOf cs = Cls (\<lambda>x. x \<in> set cs)"

definition noneOf :: "string \<Rightarrow> re" where
  "noneOf cs = Cls (\<lambda>x. x \<notin> set cs)"

text \<open>\<open>.\<close> without the \<open>s\<close> flag, \<open>\s\<close>, and \<open>r+\<close>.\<close>

definition dot :: re where
  "dot = noneOf [CHR 0x0A, CHR 0x0D]"

definition space :: re where
  "space = oneOf [CHR 0x09, CHR 0x0A, CHR 0x0B, CHR 0x0C, CHR 0x0D, CHR 0x20, CHR 0xA0]"

definition plus :: "re \<Rightarrow> re" where
  "plus r = Seq r (Star r)"

text \<open>
  \<open>s.match(r)\<close> for \<open>r\<close> with the \<open>g\<close> flag: the matched texts from left to right, each
  search starting where the last match ended (one further after an empty match); no match
  at all is \<open>null\<close>, which every call site replaces by \<open>[]\<close>.
\<close>

function matchAll :: "re \<Rightarrow> string \<Rightarrow> string \<Rightarrow> string list" where
  "matchAll r s rest =
     (case ms s r (rest, []) of
        [] \<Rightarrow> (case rest of [] \<Rightarrow> [] | c # cs \<Rightarrow> matchAll r s cs)
      | (rest', caps) # others \<Rightarrow>
          take (length rest - length rest') rest #
            (if length rest' < length rest then matchAll r s rest'
             else case rest of [] \<Rightarrow> [] | c # cs \<Rightarrow> matchAll r s cs))"
  by pat_completeness auto
termination
  by (relation "measure (\<lambda>(r, s, rest). length rest)") auto

declare matchAll.simps [simp del]

definition matchGlobal :: "re \<Rightarrow> string \<Rightarrow> string list" where
  "matchGlobal r s = matchAll r s s"

text \<open>
  \<open>s.match(r)\<close> for \<open>r\<close> without the \<open>g\<close> flag: the captures of the leftmost match,
  \<open>None\<close> for \<open>null\<close>.
\<close>

fun execFrom :: "re \<Rightarrow> string \<Rightarrow> string \<Rightarrow> captures option" where
  "execFrom r s [] =
     (case ms s r ([], []) of [] \<Rightarrow> None | (rest', caps) # others \<Rightarrow> Some caps)"
| "execFrom r s (c # cs) =
     (case ms s r (c # cs, []) of
        [] \<Rightarrow> execFrom r s cs
      | (rest', caps) # others \<Rightarrow> Some caps)"

definition exec :: "re \<Rightarrow> string \<Rightarrow> captures option" where
  "exec r s = execFrom r s s"

section \<open>regex-extractor.js\<close>

text \<open>
  The source holds this file twice: the extractor with the filters and the limits
  (\<open>extractRegexFromFile\<close>, \<open>analyzeProject\<close>), and the one without them
  (\<open>extractRegexFromFile_unfiltered\<close>, \<open>analyzeProject_unlimited\<close>).
\<close>

subsection \<open>The patterns\<close>

definition flagLetters :: re where
  "flagLetters = Star (oneOf ''gimsuvy'')"

definition quote :: re where
  "quote = oneOf [CHR 0x27, CHR 0x22]"

text \<open>\<^verbatim>\<open>/\/(?![*\/])([^\/\n\r\\]|\\[^*]|\\.)*\/[gimsuvy]*/g\<close>\<close>

definition regexPatterns0 :: re where
  "regexPatterns0 =
     seqs [chr CHR ''/'',
           NotAhead (oneOf ''*/''),
           Star (Group 1 (Alt (noneOf [CHR ''/'', CHR 0x0A, CHR 0x0D, bsl])
                         (Alt (Seq (chr bsl) (noneOf ''*''))
                              (Seq (chr bsl) dot)))),
           chr CHR ''/'',
           flagLetters]"

text \<open>\<^verbatim>\<open>/new\s+RegExp\s*\(\s*['"]((?:[^'"\\\n\r]|\\.)*)['"](?:\s*,\s*['"][gimsuvy]*['"])?\s*\)/g\<close>\<close>

definition regexPatterns1 :: re where
  "regexPatterns1 =
     seqs [lit ''new'', plus space, lit ''RegExp'', Star space, chr CHR ''('', Star space,
           quote,
           Group 1 (Star (Alt (noneOf [CHR 0x27, CHR 0x22, bsl, CHR 0x0A, CHR 0x0D])
                              (Seq (chr bsl) dot))),
           quote,
           Opt (seqs [Star space, chr CHR '','', Star space, quote, flagLetters, quote]),
           Star space, chr CHR '')'']"

text \<open>
  \<^verbatim>\<open>/new\s+RegExp\s*\(\s*[a-zA-Z_$][a-zA-Z0-9_$]*(?:\s*,\s*['"][gimsuvy]*['"])?\s*\)/g\<close>,
  the third element of \<open>regexPatterns\<close>. No function of the file reads it.
\<close>

definition identStart :: re where
  "identStart = oneOf ''abcdefghijklmnopqrstuvwxyzABCDEFGHIJKLMNOPQRSTUVWXYZ_$''"

definition identPart :: re where
  "identPart = oneOf ''abcdefghijklmnopqrstuvwxyzABCDEFGHIJKLMNOPQRSTUVWXYZ0123456789_$''"

definition regexPatterns2 :: re where
  "regexPatterns2 =
     seqs [lit ''new'', plus space, lit ''RegExp'', Star space, chr CHR ''('', Star space,
           identStart, Star identPart,
           Opt (seqs [Star space, chr CHR '','', Star space, quote, flagLetters, quote]),
           Star space, chr CHR '')'']"

text \<open>\<^verbatim>\<open>/^\/(.*)\/([gimsuvy]*)$/\<close> and \<^verbatim>\<open>/new\s+RegExp\s*\(\s*['"]([^'"]*)['"]/\<close>\<close>

definition literalParts :: re where
  "literalParts =
     seqs [Bol, chr CHR ''/'', Group 1 (Star dot), chr CHR ''/'', Group 2 flagLetters, Eol]"

definition constructorParts :: re where
  "constructorParts =
     seqs [lit ''new'', plus space, lit ''RegExp'', Star space, chr CHR ''('', Star space,
           quote, Group 1 (Star (noneOf [CHR 0x27, CHR 0x22])), quote]"

subsection \<open>The file system\<close>

text \<open>
  \<open>fs.readFileSync(filePath, 'utf8')\<close> returns the text of a file or throws; a path that
  is not there is \<open>None\<close>.
\<close>

datatype fsEntry = Unreadable | Text string

type_synonym fileSystem = "string \<Rightarrow> fsEntry option"

definition existsSync :: "fileSystem \<Rightarrow> string \<Rightarrow> bool" where
  "existsSync fs p = (fs p \<noteq> None)"

subsection \<open>extractRegexFromFile\<close>

datatype regexType = literal | constructor

record qpattern =
  pattern :: string
  flags :: string
  "file" :: string

record patternInfo = qpattern +
  type :: regexType
  full :: string

text \<open>The condition of the two \<open>if\<close>s that guard \<open>patterns.push\<close>.\<close>

definition meaningful :: "string \<Rightarrow> bool" where
  "meaningful p =
     (length p > 5 \<and> length p < 500 \<and>
      \<not> includes_str p [bsl, CHR ''n''] \<and> \<not> includes_str p [bsl, CHR ''r''])"

text \<open>
  The callbacks of the two \<open>forEach\<close> loops. A group that took no part in the match is
  \<open>undefined\<close>, reading its \<open>length\<close> throws, and the \<open>catch\<close> skips the match.
\<close>

definition pushLiteral :: "string \<Rightarrow> patternInfo list \<Rightarrow> string \<Rightarrow> patternInfo list" where
  "pushLiteral filePath patterns m =
     (case exec literalParts m of
        None \<Rightarrow> patterns
      | Some patternMatch \<Rightarrow>
          (case (map_of patternMatch 1, map_of patternMatch 2) of
             (Some p, Some f) \<Rightarrow>
               if meaningful p
               then patterns @ [\<lparr>pattern = p, flags = f, file = filePath,
                                  type = literal, full = m\<rparr>]
               else patterns
           | _ \<Rightarrow> patterns))"

definition pushConstructor :: "string \<Rightarrow> patternInfo list \<Rightarrow> string \<Rightarrow> patternInfo list" where
  "pushConstructor filePath patterns m =
     (case exec constructorParts m of
        None \<Rightarrow> patterns
      | Some patternMatch \<Rightarrow>
          (case map_of patternMatch 1 of
             Some p \<Rightarrow>
               if meaningful p
               then patterns @ [\<lparr>pattern = p, flags = [], file = filePath,
                                  type = constructor, full = m\<rparr>]
               else patterns
           | None \<Rightarrow> patterns))"

definition extractRegexFromFile :: "fileSystem \<Rightarrow> string \<Rightarrow> patternInfo list" where
  "extractRegexFromFile fs filePath =
     (case fs filePath of
        Some (Text content) \<Rightarrow>
          (let patterns = [];
               literalMatches = matchGlobal regexPatterns0 content;
               patterns = foldl (pushLiteral filePath) patterns literalMatches;
               constructorMatches = matchGlobal regexPatterns1 content;
               patterns = foldl (pushConstructor filePath) patterns constructorMatches
           in patterns)
      | _ \<Rightarrow> [])"

text \<open>The extractor without the filters.\<close>

definition pushLiteral_unfiltered ::
  "string \<Rightarrow> patternInfo list \<Rightarrow> string \<Rightarrow> patternInfo list" where
  "pushLiteral_unfiltered filePath patterns m =
     (case exec literalParts m of
        None \<Rightarrow> patterns
      | Some patternMatch \<Rightarrow>
          (case (map_of patternMatch 1, map_of patternMatch 2) of
             (Some p, Some f) \<Rightarrow>
               patterns @ [\<lparr>pattern = p, flags = f, file = filePath,
                             type = literal, full = m\<rparr>]
           | _ \<Rightarrow> patterns))"

definition pushConstructor_unfiltered ::
  "string \<Rightarrow> patternInfo list \<Rightarrow> string \<Rightarrow> patternInfo list" where
  "pushConstructor_unfiltered filePath patterns m =
     (case exec constructorParts m of
        None \<Rightarrow> patterns
      | Some patternMatch \<Rightarrow>
          (case map_of patternMatch 1 of
             Some p \<Rightarrow>
               patterns @ [\<lparr>pattern = p, flags = [], file = filePath,
                             type = constructor, full = m\<rparr>]
           | None \<Rightarrow> patterns))"

definition extractRegexFromFile_unfiltered :: "fileSystem \<Rightarrow> string \<Rightarrow> patternInfo list" where
  "extractRegexFromFile_unfiltered fs filePath =
     (case fs filePath of
        Some (Text content) \<Rightarrow>
          (let patterns = [];
               literalMatches = matchGlobal regexPatterns0 content;
               patterns = foldl (pushLiteral_unfiltered filePath) patterns literalMatches;
               constructorMatches = matchGlobal regexPatterns1 content;
               patterns = foldl (pushConstructor_unfiltered filePath) patterns constructorMatches
           in patterns)
      | _ \<Rightarrow> [])"

subsection \<open>The detector\<close>

text \<open>
  \<open>isSafe\<close> of the library redos-detector is a parameter. \<open>det p f\<close> is
  \<open>new RegExp(p, f)\<close> followed by \<open>isSafe(regexObj)\<close>: the \<open>message\<close> of the error
  that either throws (\<open>Inl\<close>), or the analysis returned (\<open>Inr\<close>).
\<close>

datatype score = Infinite | Finite nat

record analysis =
  a_safe :: bool
  a_score :: score

type_synonym detector = "string \<Rightarrow> string \<Rightarrow> string + analysis"

subsection \<open>analyzeProject\<close>

text \<open>
  The loop over \<open>jsFiles\<close>, the result of \<open>findJavaScriptFiles(projectPath)\<close>, which
  both versions of \<open>analyzeProject\<close> run, each on its own \<open>extractRegexFromFile\<close>.
\<close>

definition allPatternsOf :: "(string \<Rightarrow> patternInfo list) \<Rightarrow> string list \<Rightarrow> patternInfo list" where
  "allPatternsOf extract jsFiles =
     foldl (\<lambda>allPatterns f.
              let patterns = extract f
              in if length patterns > 0 then allPatterns @ patterns else allPatterns)
           [] jsFiles"

text \<open>\<open>s.toLowerCase()\<close> on the code units below U+0100.\<close>

definition lowerChar :: "char \<Rightarrow> char" where
  "lowerChar c =
     (let n = (of_char c :: nat)
      in if (65 \<le> n \<and> n \<le> 90) \<or> (192 \<le> n \<and> n \<le> 222 \<and> n \<noteq> 215)
         then char_of (n + 32) else c)"

definition toLowerCase :: "string \<Rightarrow> string" where
  "toLowerCase s = map lowerChar s"

definition silentErrors :: "string list" where
  "silentErrors =
     [''Internal error'', ''caseInsensitive'', ''unicode'', ''expected codepoint'',
      ''Invalid regular expression'', ''memory'', ''heap'']"

definition shouldSkipSilently :: "string \<Rightarrow> bool" where
  "shouldSkipSilently errorMsg =
     list_ex (\<lambda>silentError. includes_str (toLowerCase errorMsg) (toLowerCase silentError))
             silentErrors"

text \<open>
  The three arrays. An element of the first two is the \<open>patternInfo\<close> with its
  \<open>analysis\<close> property set, an element of the third the \<open>patternInfo\<close> with its
  \<open>error\<close> property.
\<close>

record buckets =
  vulnerablePatterns :: "(patternInfo \<times> analysis) list"
  safePatterns :: "(patternInfo \<times> analysis) list"
  errorPatterns :: "(patternInfo \<times> string) list"

definition noBuckets :: buckets where
  "noBuckets = \<lparr>vulnerablePatterns = [], safePatterns = [], errorPatterns = []\<rparr>"

text \<open>
  The body of \<open>for (const patternInfo of patternsToAnalyze)\<close>. The test for U+FFFD is
  false on every pattern of the model, whose characters are below U+0100.
\<close>

definition analyzeOne :: "detector \<Rightarrow> buckets \<Rightarrow> patternInfo \<Rightarrow> buckets" where
  "analyzeOne det b patternInfo =
     (if includes_str (flags patternInfo) ''u'' \<and> includes_str (flags patternInfo) ''i''
      then b
      else if includes_str (pattern patternInfo) [CHR 0x00] \<or> length (pattern patternInfo) > 300
      then b
      else case det (pattern patternInfo) (flags patternInfo) of
             Inr analysis \<Rightarrow>
               if a_safe analysis
               then b\<lparr>safePatterns := safePatterns b @ [(patternInfo, analysis)]\<rparr>
               else b\<lparr>vulnerablePatterns := vulnerablePatterns b @ [(patternInfo, analysis)]\<rparr>
           | Inl errorMsg \<Rightarrow>
               if \<not> shouldSkipSilently errorMsg
               then b\<lparr>errorPatterns := errorPatterns b @ [(patternInfo, errorMsg)]\<rparr>
               else b)"

definition analyzeAll :: "detector \<Rightarrow> patternInfo list \<Rightarrow> buckets" where
  "analyzeAll det allPatterns =
     (let maxPatterns = min 100 (length allPatterns);
          patternsToAnalyze = take maxPatterns allPatterns
      in foldl (analyzeOne det) noBuckets patternsToAnalyze)"

record summary =
  totalFiles :: nat
  totalPatterns :: nat
  n_safePatterns :: nat
  n_vulnerablePatterns :: nat
  n_errorPatterns :: nat

record projectResults =
  project :: string
  summary :: summary
  r_vulnerablePatterns :: "(patternInfo \<times> analysis) list"
  r_safePatterns :: "(patternInfo \<times> analysis) list"
  r_errorPatterns :: "(patternInfo \<times> string) list"

definition resultsOf :: "string \<Rightarrow> string list \<Rightarrow> patternInfo list \<Rightarrow> buckets \<Rightarrow> projectResults" where
  "resultsOf projectName jsFiles allPatterns b =
     \<lparr>project = projectName,
      summary = \<lparr>totalFiles = length jsFiles,
                 totalPatterns = length allPatterns,
                 n_safePatterns = length (safePatterns b),
                 n_vulnerablePatterns = length (vulnerablePatterns b),
                 n_errorPatterns = length (errorPatterns b)\<rparr>,
      r_vulnerablePatterns = vulnerablePatterns b,
      r_safePatterns = take 10 (safePatterns b),
      r_errorPatterns = errorPatterns b\<rparr>"

definition analyzeProject ::
  "fileSystem \<Rightarrow> detector \<Rightarrow> string list \<Rightarrow> string \<Rightarrow> projectResults" where
  "analyzeProject fs det jsFiles projectName =
     (let allPatterns = allPatternsOf (extractRegexFromFile fs) jsFiles
      in resultsOf projectName jsFiles allPatterns (analyzeAll det allPatterns))"

text \<open>The version without the limits: every error is pushed onto \<open>errorPatterns\<close>.\<close>

definition analyzeOne_unlimited :: "detector \<Rightarrow> buckets \<Rightarrow> patternInfo \<Rightarrow> buckets" where
  "analyzeOne_unlimited det b patternInfo =
     (case det (pattern patternInfo) (flags patternInfo) of
        Inr analysis \<Rightarrow>
          if a_safe analysis
          then b\<lparr>safePatterns := safePatterns b @ [(patternInfo, analysis)]\<rparr>
          else b\<lparr>vulnerablePatterns := vulnerablePatterns b @ [(patternInfo, analysis)]\<rparr>
      | Inl errorMsg \<Rightarrow> b\<lparr>errorPatterns := errorPatterns b @ [(patternInfo, errorMsg)]\<rparr>)"

definition analyzeProject_unlimited ::
  "fileSystem \<Rightarrow> detector \<Rightarrow> string list \<Rightarrow> string \<Rightarrow> projectResults" where
  "analyzeProject_unlimited fs det jsFiles projectName =
     (let allPatterns = allPatternsOf (extractRegexFromFile_unfiltered fs) jsFiles
      in resultsOf projectName jsFiles allPatterns
           (foldl (analyzeOne_unlimited det) noBuckets allPatterns))"

section \<open>quick-analysis.js\<close>

subsection \<open>quickExtract\<close>

definition pushQuick :: "string \<Rightarrow> qpattern list \<Rightarrow> string \<Rightarrow> qpattern list" where
  "pushQuick filePath patterns m =
     (case exec literalParts m of
        None \<Rightarrow> patterns
      | Some patternMatch \<Rightarrow>
          (case (map_of patternMatch 1, map_of patternMatch 2) of
             (Some p, Some f) \<Rightarrow>
               if length p > 5
               then patterns @ [\<lparr>pattern = p, flags = f, file = filePath\<rparr>]
               else patterns
           | _ \<Rightarrow> patterns))"

definition quickExtract :: "fileSystem \<Rightarrow> string \<Rightarrow> qpattern list" where
  "quickExtract fs filePath =
     (case fs filePath of
        Some (Text content) \<Rightarrow>
          (let patterns = [];
               literalMatches = matchGlobal regexPatterns0 content;
               patterns = foldl (pushQuick filePath) patterns literalMatches
           in patterns)
      | _ \<Rightarrow> [])"

subsection \<open>analyzePatterns\<close>

record vulnerableEntry = qpattern +
  score :: score
  infinite :: bool

record quickResult =
  vulnerable :: "vulnerableEntry list"
  safe :: "qpattern list"

text \<open>
  The callback of \<open>patterns.forEach\<close>: \<open>return\<close> leaves the callback, and the
  \<open>catch\<close> only writes to the console.
\<close>

definition analyzePattern :: "detector \<Rightarrow> quickResult \<Rightarrow> qpattern \<Rightarrow> quickResult" where
  "analyzePattern det acc p =
     (if includes_str (flags p) ''u'' \<and> includes_str (flags p) ''i''
      then acc
      else case det (pattern p) (flags p) of
             Inr analysis \<Rightarrow>
               if \<not> a_safe analysis
               then acc\<lparr>vulnerable := vulnerable acc @
                          [\<lparr>pattern = pattern p, flags = flags p, file = file p,
                            score = a_score analysis,
                            infinite = (a_score analysis = Infinite)\<rparr>]\<rparr>
               else acc\<lparr>safe := safe acc @ [p]\<rparr>
           | Inl errorMsg \<Rightarrow> acc)"

definition analyzePatterns :: "detector \<Rightarrow> qpattern list \<Rightarrow> quickResult" where
  "analyzePatterns det patterns =
     foldl (analyzePattern det) \<lparr>vulnerable = [], safe = []\<rparr> patterns"

subsection \<open>main: the results of all files\<close>

definition targetFiles :: "string list" where
  "targetFiles =
     [''analysis/projects/validator.js/src/lib/isCreditCard.js'',
      ''analysis/projects/validator.js/src/lib/isEmail.js'',
      ''analysis/projects/validator.js/src/lib/isFQDN.js'',
      ''analysis/projects/validator.js/src/lib/isHSL.js'',
      ''analysis/projects/validator.js/src/lib/isURL.js'',
      ''analysis/projects/moment/src/lib/create/from-string.js'',
      ''analysis/projects/moment/src/lib/format/format.js'',
      ''analysis/projects/chalk/source/index.js'']"

definition projectNameOf :: "string \<Rightarrow> string" where
  "projectNameOf f =
     (if includes_str f ''validator'' then ''validator.js''
      else if includes_str f ''moment'' then ''moment.js'' else ''chalk'')"

text \<open>
  \<open>allResults\<close> is an object: an association list in the order the keys were set.
  \<open>pushResults\<close> is the creation of \<open>allResults[projectName]\<close> when it is missing and
  the two \<open>push(...)\<close> onto it.
\<close>

fun pushResults ::
  "string \<Rightarrow> quickResult \<Rightarrow> (string \<times> quickResult) list \<Rightarrow> (string \<times> quickResult) list" where
  "pushResults projectName r [] = [(projectName, r)]"
| "pushResults projectName r ((k, v) # rest) =
     (if k = projectName
      then (k, \<lparr>vulnerable = vulnerable v @ vulnerable r, safe = safe v @ safe r\<rparr>) # rest
      else (k, v) # pushResults projectName r rest)"

definition analyzeFile ::
  "fileSystem \<Rightarrow> detector \<Rightarrow> (string \<times> quickResult) list \<Rightarrow> string
     \<Rightarrow> (string \<times> quickResult) list" where
  "analyzeFile fs det allResults f =
     (if existsSync fs f then
        (let patterns = quickExtract fs f
         in if length patterns > 0
            then pushResults (projectNameOf f) (analyzePatterns det patterns) allResults
            else allResults)
      else allResults)"

definition analyzeFiles ::
  "fileSystem \<Rightarrow> detector \<Rightarrow> string list \<Rightarrow> (string \<times> quickResult) list" where
  "analyzeFiles fs det files = foldl (analyzeFile fs det) [] files"

definition quickMain :: "fileSystem \<Rightarrow> detector \<Rightarrow> (string \<times> quickResult) list" where
  "quickMain fs det = analyzeFiles fs det targetFiles"

subsection \<open>generateTestInputs\<close>

definition generateTestInputs :: "string \<Rightarrow> string list" where
  "generateTestInputs pat =
     (let inputs = [];
          inputs = (if includes_str pat ''+'' \<and>
                       (includes_str pat ''*'' \<or> includes_str pat ''+'')
                    then inputs @ [replicate 20 CHR ''a'' @ ''x''] else inputs);
          inputs = (if includes_str pat ''|''
                    then inputs @ [replicate 10 CHR ''a'' @ replicate 10 CHR ''b'' @ ''x'']
                    else inputs);
          inputs = (if includes_str pat ''@'' \<or> includes_str pat [bsl, CHR ''.'']
                    then inputs @ [replicate 50 CHR ''a'' @ ''@'' @ replicate 50 CHR ''b'' @ ''.com'']
                    else inputs);
          inputs = (if includes_str pat ''http'' \<or> includes_str pat ''://''
                    then inputs @ [''http://'' @ replicate 100 CHR ''a'' @ ''.com'']
                    else inputs);
          inputs = inputs @ [replicate 100 CHR ''a'' @ ''x'']
      in inputs)"

section \<open>performance-benchmark.js\<close>

subsection \<open>The executing regex engine and the runtime\<close>

text \<open>
  The regex engine of the runtime is a parameter. \<open>compiles p f\<close> is \<open>new RegExp(p, f)\<close>:
  \<open>None\<close> when the object is built, \<open>Some msg\<close> when the constructor throws.
  \<open>test p f k input\<close> is the \<open>k\<close>-th call \<open>regex.test(input)\<close> on that object: the
  nanoseconds the call runs on the clock of \<open>process.hrtime.bigint()\<close>, and either the
  message it throws (\<open>Inl\<close>) or the boolean it returns (\<open>Inr\<close>).
\<close>

record engine =
  compiles :: "string \<Rightarrow> string \<Rightarrow> string option"
  test :: "string \<Rightarrow> string \<Rightarrow> nat \<Rightarrow> string \<Rightarrow> nat \<times> (string + bool)"


text \<open>
  The runtime: the clock in nanoseconds and the timers that are pending, each with its
  handle and the time it is due. A timer's callback is a task of the event loop: it runs
  only when the running callback has returned, never during a synchronous call.
\<close>

record runtime =
  clock :: nat
  timers :: "(nat \<times> nat) list"
  nextHandle :: nat

definition setTimeout :: "nat \<Rightarrow> runtime \<Rightarrow> nat \<times> runtime" where
  "setTimeout delay rt =
     (nextHandle rt,
      rt\<lparr>timers := timers rt @ [(nextHandle rt, clock rt + delay * 1000000)],
         nextHandle := Suc (nextHandle rt)\<rparr>)"

definition clearTimeout :: "nat \<Rightarrow> runtime \<Rightarrow> runtime" where
  "clearTimeout h rt = rt\<lparr>timers := filter (\<lambda>t. fst t \<noteq> h) (timers rt)\<rparr>"

subsection \<open>benchmarkPattern\<close>

datatype outcome = Tested bool | TimeoutResult | ErrorResult

text \<open>
  One element of \<open>results\<close>. The object pushed in the \<open>catch\<close> branch has no
  \<open>timeout\<close> property and the two others have no \<open>error\<close> property: \<open>None\<close>.
\<close>

record sample =
  inputLength :: nat
  duration :: rat
  result :: outcome
  timeout :: "bool option"
  error :: "string option"

text \<open>
  The body of the \<open>forEach\<close> callback. \<open>timedOut\<close> is the local flag; the only
  assignment of \<open>true\<close> to it is in the timer's callback, which the runtime does not run
  between \<open>setTimeout\<close> and \<open>clearTimeout\<close>: the flag read after \<open>regex.test\<close> is the
  one written before it.
\<close>

definition benchmarkSample ::
  "engine \<Rightarrow> string \<Rightarrow> string \<Rightarrow> nat \<Rightarrow> string \<Rightarrow> runtime \<Rightarrow> sample \<times> runtime" where
  "benchmarkSample eng pat flgs index input rt =
     (let start = clock rt;
          timedOut = False;
          (h, rt1) = setTimeout 5000 rt;
          (elapsed, r) = test eng pat flgs index input;
          rt2 = rt1\<lparr>clock := clock rt1 + elapsed\<rparr>;
          rt3 = clearTimeout h rt2
      in case r of
           Inr res \<Rightarrow>
             if \<not> timedOut then
               (\<lparr>inputLength = length input,
                 duration = of_nat (clock rt3 - start) / 1000000,
                 result = Tested res, timeout = Some False, error = None\<rparr>, rt3)
             else
               (\<lparr>inputLength = length input, duration = 5000,
                 result = TimeoutResult, timeout = Some True, error = None\<rparr>, rt3)
         | Inl msg \<Rightarrow>
             (\<lparr>inputLength = length input, duration = 0,
               result = ErrorResult, timeout = None, error = Some msg\<rparr>, rt3))"

text \<open>\<open>testInputs.forEach((input, index) => ...)\<close>, pushing onto \<open>results\<close>.\<close>

fun forEachInput ::
  "engine \<Rightarrow> string \<Rightarrow> string \<Rightarrow> nat \<Rightarrow> string list \<Rightarrow> runtime \<Rightarrow> sample list
     \<Rightarrow> sample list \<times> runtime" where
  "forEachInput eng pat flgs index [] rt results = (results, rt)"
| "forEachInput eng pat flgs index (input # rest) rt results =
     (case benchmarkSample eng pat flgs index input rt of
        (s, rt') \<Rightarrow> forEachInput eng pat flgs (Suc index) rest rt' (results @ [s]))"

text \<open>
  \<open>new RegExp(pattern, flags)\<close> stands before the loop and outside every \<open>try\<close>: when
  it throws, \<open>benchmarkPattern\<close> throws (\<open>Inl\<close>).
\<close>

definition benchmarkPattern ::
  "engine \<Rightarrow> string \<Rightarrow> string \<Rightarrow> string list \<Rightarrow> runtime
     \<Rightarrow> string + (sample list \<times> runtime)" where
  "benchmarkPattern eng pat flgs testInputs rt =
     (case compiles eng pat flgs of
        Some msg \<Rightarrow> Inl msg
      | None \<Rightarrow> Inr (forEachInput eng pat flgs 0 testInputs rt []))"

subsection \<open>generateReDoSInputs\<close>

definition generateReDoSInputs :: "string \<Rightarrow> string list" where
  "generateReDoSInputs pat =
     (let inputs = [];
          inputs = (if includes_str pat ''5[1-5]'' \<or> includes_str pat ''222''
                    then inputs @ [''5'' @ replicate 20 CHR ''1'' @ ''x'',
                                   ''5'' @ replicate 50 CHR ''1'' @ ''x'',
                                   ''5'' @ replicate 100 CHR ''1'' @ ''x'']
                    else inputs);
          inputs = (if includes_str pat ''a-z'' \<and> includes_str pat ''{2,}''
                    then inputs @ [replicate 20 CHR ''a'' @ ''x'',
                                   replicate 50 CHR ''a'' @ ''x'',
                                   replicate 100 CHR ''a'' @ ''x'']
                    else inputs);
          inputs = (if includes_str pat ''hsla?''
                    then inputs @ [''hsl('' @ concat (replicate 20 ''1.'') @ ''x'',
                                   ''hsl('' @ concat (replicate 50 ''1.'') @ ''x'',
                                   ''hsl('' @ concat (replicate 100 ''1.'') @ ''x'']
                    else inputs);
          inputs = (if includes_str pat ''Mon|Tue|Wed''
                    then inputs @ [''Mon, '' @ replicate 20 CHR ''1'' @ '' Jan'',
                                   ''Mon, '' @ replicate 50 CHR ''1'' @ '' Jan'',
                                   ''Mon, '' @ replicate 100 CHR ''1'' @ '' Jan'']
                    else inputs);
          inputs = (if includes_str pat [bsl, CHR ''[''] \<and> includes_str pat ''MM?M?M?''
                    then inputs @ [''['' @ replicate 20 CHR ''M'' @ ''x'',
                                   ''['' @ replicate 50 CHR ''M'' @ ''x'',
                                   ''['' @ replicate 100 CHR ''M'' @ ''x'']
                    else inputs);
          inputs = (if includes_str pat [bsl, CHR ''s'', bsl, CHR ''s'', CHR ''*'']
                    then inputs @ [replicate 20 CHR '' '' @ ''x'',
                                   replicate 50 CHR '' '' @ ''x'',
                                   replicate 100 CHR '' '' @ ''x'']
                    else inputs);
          inputs = (if length inputs = 0
                    then inputs @ [replicate 20 CHR ''a'' @ ''x'',
                                   replicate 50 CHR ''a'' @ ''x'',
                                   replicate 100 CHR ''a'' @ ''x'']
                    else inputs)
      in inputs)"

subsection \<open>main: the benchmarks\<close>

text \<open>
  \<open>analysisResults.results\<close> is what quick-analysis.js wrote: its \<open>allResults\<close>.
  An element of \<open>allBenchmarks[project]\<close>:
\<close>

record benchmark =
  b_pattern :: string
  b_file :: string
  results :: "sample list"

text \<open>
  \<open>vulnerablePatterns.slice(0, 3).forEach((vuln, index) => ...)\<close>. An exception of
  \<open>benchmarkPattern\<close> is caught nowhere and leaves the loop.
\<close>

fun forEachVuln ::
  "engine \<Rightarrow> vulnerableEntry list \<Rightarrow> runtime \<Rightarrow> benchmark list
     \<Rightarrow> string + (benchmark list \<times> runtime)" where
  "forEachVuln eng [] rt acc = Inr (acc, rt)"
| "forEachVuln eng (vuln # rest) rt acc =
     (let testInputs = generateReDoSInputs (pattern vuln)
      in case benchmarkPattern eng (pattern vuln) (flags vuln) testInputs rt of
           Inl msg \<Rightarrow> Inl msg
         | Inr (benchmarkResults, rt') \<Rightarrow>
             forEachVuln eng rest rt'
               (acc @ [\<lparr>b_pattern = pattern vuln, b_file = file vuln,
                         results = benchmarkResults\<rparr>]))"

text \<open>
  \<open>Object.keys(analysisResults.results).forEach(project => ...)\<close>: the object is an
  association list in key order, and so is \<open>allBenchmarks\<close>.
\<close>

fun forEachProject ::
  "engine \<Rightarrow> (string \<times> quickResult) list \<Rightarrow> runtime \<Rightarrow> (string \<times> benchmark list) list
     \<Rightarrow> string + ((string \<times> benchmark list) list \<times> runtime)" where
  "forEachProject eng [] rt allBenchmarks = Inr (allBenchmarks, rt)"
| "forEachProject eng ((proj, r) # rest) rt allBenchmarks =
     (if length (vulnerable r) > 0 then
        (case forEachVuln eng (take 3 (vulnerable r)) rt [] of
           Inl msg \<Rightarrow> Inl msg
         | Inr (bs, rt') \<Rightarrow> forEachProject eng rest rt' (allBenchmarks @ [(proj, bs)]))
      else forEachProject eng rest rt allBenchmarks)"

definition benchmarkAll ::
  "engine \<Rightarrow> (string \<times> quickResult) list \<Rightarrow> runtime
     \<Rightarrow> string + ((string \<times> benchmark list) list \<times> runtime)" where
  "benchmarkAll eng analysisResults rt = forEachProject eng analysisResults rt []"

subsection \<open>main: the status of a benchmark\<close>

datatype severity = LOW | MEDIUM | HIGH | CRITICAL

text \<open>
  \<open>Math.max(...xs)\<close> is \<open>-Infinity\<close> on no argument: \<open>None\<close>. \<open>-Infinity > t\<close> is false.
\<close>

fun mathMax :: "rat list \<Rightarrow> rat option" where
  "mathMax [] = None"
| "mathMax (x # xs) = (case mathMax xs of None \<Rightarrow> Some x | Some m \<Rightarrow> Some (max x m))"

definition exceeds :: "rat option \<Rightarrow> rat \<Rightarrow> bool" where
  "exceeds m t = (case m of None \<Rightarrow> False | Some v \<Rightarrow> v > t)"

text \<open>\<open>r.timeout\<close> as a condition: an absent property is falsy.\<close>

definition truthy :: "bool option \<Rightarrow> bool" where
  "truthy b = (b = Some True)"

definition maxTime :: "sample list \<Rightarrow> rat option" where
  "maxTime rs = mathMax (map duration (filter (\<lambda>r. \<not> truthy (timeout r)) rs))"

definition hasTimeout :: "sample list \<Rightarrow> bool" where
  "hasTimeout rs = list_ex (\<lambda>r. truthy (timeout r)) rs"

definition status :: "sample list \<Rightarrow> severity" where
  "status rs =
     (if hasTimeout rs then CRITICAL
      else if exceeds (maxTime rs) 1000 then HIGH
      else if exceeds (maxTime rs) 100 then MEDIUM
      else LOW)"

section \<open>The derivations the properties are compared with\<close>

text \<open>
  The severity in the words of the specification: \<open>CRITICAL\<close> if any sample timed out,
  else by the elapsed time of the sample of the largest input (the last one, among equals).
\<close>

definition largestInput :: "sample list \<Rightarrow> sample option" where
  "largestInput rs =
     (case rs of
        [] \<Rightarrow> None
      | r # rest \<Rightarrow>
          Some (foldl (\<lambda>best x. if inputLength best \<le> inputLength x then x else best) r rest))"

definition severity_spec :: "sample list \<Rightarrow> severity" where
  "severity_spec rs =
     (if list_ex (\<lambda>r. result r = TimeoutResult) rs then CRITICAL
      else case largestInput rs of
             None \<Rightarrow> LOW
           | Some r \<Rightarrow>
               if duration r > 1000 then HIGH
               else if duration r > 100 then MEDIUM
               else LOW)"

text \<open>Lengths that come in triples, each triple strictly ascending.\<close>

fun ascendingTriples :: "nat list \<Rightarrow> bool" where
  "ascendingTriples [] = True"
| "ascendingTriples (a # b # c # rest) = (a < b \<and> b < c \<and> ascendingTriples rest)"
| "ascendingTriples _ = False"

text \<open>
  The array onto which one pass of the loop of \<open>analyzeProject\<close> pushes a candidate,
  \<open>None\<close> when it pushes onto none; the same for the callback of \<open>analyzePatterns\<close>.
\<close>

datatype bucket = Safe | Vulnerable | Error

definition verdictOf :: "detector \<Rightarrow> patternInfo \<Rightarrow> bucket option" where
  "verdictOf det p =
     (if includes_str (flags p) ''u'' \<and> includes_str (flags p) ''i'' then None
      else if includes_str (pattern p) [CHR 0x00] then None
      else if length (pattern p) > 300 then None
      else case det (pattern p) (flags p) of
             Inr a \<Rightarrow> Some (if a_safe a then Safe else Vulnerable)
           | Inl msg \<Rightarrow> if shouldSkipSilently msg then None else Some Error)"

definition quickVerdictOf :: "detector \<Rightarrow> qpattern \<Rightarrow> bucket option" where
  "quickVerdictOf det p =
     (if includes_str (flags p) ''u'' \<and> includes_str (flags p) ''i'' then None
      else case det (pattern p) (flags p) of
             Inr a \<Rightarrow> Some (if a_safe a then Safe else Vulnerable)
           | Inl msg \<Rightarrow> None)"

text \<open>\<open>allResults[project]\<close>, with no entry read as two empty arrays.\<close>

definition resultsFor :: "string \<Rightarrow> (string \<times> quickResult) list \<Rightarrow> quickResult" where
  "resultsFor k allResults =
     (case map_of allResults k of Some r \<Rightarrow> r | None \<Rightarrow> \<lparr>vulnerable = [], safe = []\<rparr>)"

section \<open>Concrete engines, detectors and inputs\<close>

definition rt0 :: runtime where
  "rt0 = \<lparr>clock = 0, timers = [], nextHandle = 0\<rparr>"

text \<open>An engine on which every call of \<open>test\<close> runs for six seconds and returns \<open>false\<close>.\<close>

definition slowEngine :: engine where
  "slowEngine =
     \<lparr>compiles = (\<lambda>p f. None), test = (\<lambda>p f k input. (6000000000, Inr False))\<rparr>"

text \<open>
  An engine that rejects the pattern \<open>(\<close> as V8 does, and tests every other pattern in
  one millisecond; a results file, written by hand, that holds that pattern.
\<close>

definition strictEngine :: engine where
  "strictEngine =
     \<lparr>compiles = (\<lambda>p f. if p = ''('' then Some ''Invalid regular expression: /(/: Unterminated group''
                          else None),
      test = (\<lambda>p f k input. (1000000, Inr False))\<rparr>"

definition brokenFirst :: "(string \<times> quickResult) list" where
  "brokenFirst =
     [(''validator.js'',
       \<lparr>vulnerable =
          [\<lparr>pattern = ''('', flags = [], file = ''lib/a.js'', score = Infinite, infinite = True\<rparr>,
           \<lparr>pattern = ''^(a+)+$'', flags = [], file = ''lib/b.js'', score = Infinite, infinite = True\<rparr>],
        safe = []\<rparr>),
      (''moment.js'',
       \<lparr>vulnerable =
          [\<lparr>pattern = ''^(a|a)*$'', flags = [], file = ''lib/c.js'', score = Infinite, infinite = True\<rparr>],
        safe = []\<rparr>)]"

text \<open>Three samples whose elapsed time falls as the input grows.\<close>

definition warmupSamples :: "sample list" where
  "warmupSamples =
     [\<lparr>inputLength = 21, duration = 1200, result = Tested False, timeout = Some False, error = None\<rparr>,
      \<lparr>inputLength = 51, duration = 300, result = Tested False, timeout = Some False, error = None\<rparr>,
      \<lparr>inputLength = 101, duration = 80, result = Tested False, timeout = Some False, error = None\<rparr>]"




text \<open>A detector that finds every pattern safe, and one on which every pattern is invalid.\<close>

definition safeDetector :: detector where
  "safeDetector p f = Inr \<lparr>a_safe = True, a_score = Finite 1\<rparr>"

definition rejectingDetector :: detector where
  "rejectingDetector p f = Inl (''Invalid regular expression: /'' @ p @ ''/: Unterminated group'')"

definition unicodeCandidate :: patternInfo where
  "unicodeCandidate =
     \<lparr>pattern = ''^[a-z]+$'', flags = ''ui'', file = ''src/a.js'',
      type = literal, full = ''/^[a-z]+$/ui''\<rparr>"

definition unicodeQuick :: qpattern where
  "unicodeQuick = \<lparr>pattern = ''^[a-z]+$'', flags = ''ui'', file = ''src/a.js''\<rparr>"

definition unterminated :: patternInfo where
  "unterminated =
     \<lparr>pattern = ''abc(def'', flags = [], file = ''src/a.js'',
      type = literal, full = ''/abc(def/''\<rparr>"

definition unterminatedQuick :: qpattern where
  "unterminatedQuick = \<lparr>pattern = ''abc(def'', flags = [], file = ''src/a.js''\<rparr>"

text \<open>Two of the target files of quick-analysis.js, with the same literal in each.\<close>

definition twoOrigins :: fileSystem where
  "twoOrigins =
     (\<lambda>p. if p = ''analysis/projects/validator.js/src/lib/isEmail.js''
              \<or> p = ''analysis/projects/validator.js/src/lib/isURL.js''
           then Some (Text ''const ok = /^[a-z]+$/i;'')
           else None)"

text \<open>The literal \<open>/aa...a/\<close> of \<open>n\<close> letters, and files that hold one.\<close>

definition slashed :: "nat \<Rightarrow> string" where
  "slashed n = CHR ''/'' # replicate n CHR ''a'' @ ''/''"

definition literalOf :: "nat \<Rightarrow> fileSystem" where
  "literalOf n = (\<lambda>p. if p = ''src/a.js'' then Some (Text (slashed n)) else None)"

text \<open>A file that builds a regular expression from a variable.\<close>

definition variableCall :: fileSystem where
  "variableCall =
     (\<lambda>p. if p = ''src/a.js''
           then Some (Text (''const re = new RegExp(userInput, '' @ [CHR 0x27, CHR ''g'', CHR 0x27] @ '');''))
           else None)"

text \<open>A file with the literals \<open>/abc\ndef/\<close> and \<open>/abcdef/g\<close>.\<close>

definition escapedNewline :: fileSystem where
  "escapedNewline =
     (\<lambda>p. if p = ''src/a.js''
           then Some (Text (''x = /abc'' @ [bsl] @ ''ndef/; y = /abcdef/g;''))
           else None)"

definition plainCandidate :: patternInfo where
  "plainCandidate =
     \<lparr>pattern = ''abcdef'', flags = ''g'', file = ''src/a.js'',
      type = literal, full = ''/abcdef/g''\<rparr>"

section \<open>Properties of the benchmark\<close>

subsection \<open>The deadline\<close>

lemma benchmarkSample_timeout:
  "timeout (fst (benchmarkSample eng p f k input rt)) \<noteq> Some True"
  by (simp add: benchmarkSample_def setTimeout_def Let_def split: prod.splits sum.splits)

lemma benchmarkSample_inputLength:
  "inputLength (fst (benchmarkSample eng p f k input rt)) = length input"
  by (simp add: benchmarkSample_def setTimeout_def Let_def split: prod.splits sum.splits)

lemma forEachInput_timeout:
  "\<not> hasTimeout acc \<Longrightarrow> \<not> hasTimeout (fst (forEachInput eng p f k inputs rt acc))"
proof (induction inputs arbitrary: k rt acc)
  case Nil
  then show ?case by simp
next
  case (Cons i more)
  obtain s rt' where b: "benchmarkSample eng p f k i rt = (s, rt')"
    by (cases "benchmarkSample eng p f k i rt")
  have "timeout s \<noteq> Some True"
    using benchmarkSample_timeout [of eng p f k i rt] b by simp
  with Cons.prems have "\<not> hasTimeout (acc @ [s])"
    by (simp add: hasTimeout_def truthy_def list_ex_iff)
  from Cons.IH [OF this] show ?case using b by simp
qed

lemma forEachInput_lengths:
  "map inputLength (fst (forEachInput eng p f k inputs rt acc)) =
     map inputLength acc @ map length inputs"
proof (induction inputs arbitrary: k rt acc)
  case Nil
  then show ?case by simp
next
  case (Cons i more)
  obtain s rt' where b: "benchmarkSample eng p f k i rt = (s, rt')"
    by (cases "benchmarkSample eng p f k i rt")
  have "inputLength s = length i"
    using benchmarkSample_inputLength [of eng p f k i rt] b by simp
  then show ?case using b Cons.IH [of "Suc k" rt' "acc @ [s]"] by simp
qed

text \<open>
  C1. A call of \<open>regex.test\<close> that runs for six seconds, one second over the deadline, is
  recorded with its elapsed time of 6000 ms and \<open>timeout: false\<close>: the branch that records
  \<open>duration: 5000\<close>, \<open>result: 'timeout'\<close> is not taken.
\<close>

theorem benchmarkPattern_over_deadline:
  "map_sum id fst
     (benchmarkPattern slowEngine ''^(a+)+$'' [] [replicate 30 CHR ''a'' @ ''x''] rt0) =
   Inr [\<lparr>inputLength = 31, duration = 6000, result = Tested False,
         timeout = Some False, error = None\<rparr>]"
  by (simp add: benchmarkPattern_def slowEngine_def rt0_def benchmarkSample_def
      setTimeout_def clearTimeout_def)

text \<open>
  The timer of a sample is cleared before the callback returns, so its callback never
  runs; no engine and no input make \<open>benchmarkPattern\<close> record a timeout.
\<close>

lemma benchmarkSample_timer_cleared:
  "timers (snd (benchmarkSample eng p f k input rt)) =
     filter (\<lambda>t. fst t \<noteq> nextHandle rt) (timers rt)"
  by (simp add: benchmarkSample_def setTimeout_def clearTimeout_def Let_def
      split: prod.splits sum.splits)

lemma benchmarkPattern_never_timeout:
  "benchmarkPattern eng p f inputs rt = Inr (rs, rt') \<Longrightarrow> \<not> hasTimeout rs"
proof -
  assume a: "benchmarkPattern eng p f inputs rt = Inr (rs, rt')"
  have "\<not> hasTimeout []" by (simp add: hasTimeout_def)
  from forEachInput_timeout [OF this, of eng p f 0 inputs rt] a
  show ?thesis by (auto simp: benchmarkPattern_def split: option.splits)
qed

subsection \<open>Engine errors\<close>

text \<open>
  \<open>new RegExp\<close> is caught nowhere in this script: on a results file that holds a
  pattern the engine rejects, which quick-analysis.js never writes, \<open>main\<close> throws the
  engine's error.
\<close>

lemma benchmarkAll_foreign_file:
  "benchmarkAll strictEngine brokenFirst rt0 =
     Inl ''Invalid regular expression: /(/: Unterminated group''"
  by (simp add: benchmarkAll_def brokenFirst_def strictEngine_def benchmarkPattern_def)


lemma forEachInput_length:
  "length (fst (forEachInput eng p f k inputs rt acc)) = length acc + length inputs"
  using arg_cong [OF forEachInput_lengths [of eng p f k inputs rt acc], of length]
  by simp

subsection \<open>The status\<close>

lemma exceeds_mathMax: "exceeds (mathMax xs) t \<longleftrightarrow> (\<exists>x\<in>set xs. x > t)"
  by (induction xs) (auto simp: exceeds_def split: option.splits)

text \<open>
  C2, as the code has it. The status is \<open>CRITICAL\<close> if a sample timed out; otherwise
  \<open>HIGH\<close> if the elapsed time of some sample exceeds 1000 ms; otherwise \<open>MEDIUM\<close> if the
  elapsed time of some sample exceeds 100 ms; otherwise \<open>LOW\<close>. The time compared is the
  maximum over the samples, whatever their input.
\<close>

theorem status_by_maximum:
  "status rs =
     (if (\<exists>r\<in>set rs. timeout r = Some True) then CRITICAL
      else if (\<exists>r\<in>set rs. duration r > 1000) then HIGH
      else if (\<exists>r\<in>set rs. duration r > 100) then MEDIUM
      else LOW)"
proof (cases "\<exists>r\<in>set rs. timeout r = Some True")
  case True
  then show ?thesis
    by (simp add: status_def hasTimeout_def truthy_def list_ex_iff)
next
  case False
  then have f: "filter (\<lambda>r. \<not> truthy (timeout r)) rs = rs"
    by (simp add: truthy_def)
  from False show ?thesis
    by (simp add: status_def hasTimeout_def truthy_def list_ex_iff maxTime_def f exceeds_mathMax)
qed

theorem status_by_maximum_witness:
  "status warmupSamples = HIGH \<and>
   \<not> (\<exists>r\<in>set warmupSamples. timeout r = Some True) \<and>
   (\<exists>r\<in>set warmupSamples. duration r > 1000)"
  using status_by_maximum [of warmupSamples]
  by (simp add: warmupSamples_def)

text \<open>
  C2, as the specification has it, fails: the largest input of \<open>warmupSamples\<close> took
  80 ms, which is \<open>LOW\<close>, and the status is \<open>HIGH\<close>.
\<close>

theorem status_largest_input_counterexample:
  "status warmupSamples = HIGH \<and> severity_spec warmupSamples = LOW"
  by (simp add: warmupSamples_def status_def hasTimeout_def truthy_def maxTime_def exceeds_def
      severity_spec_def largestInput_def)

subsection \<open>The inputs\<close>

lemma generateReDoSInputs_lengths:
  "map length (generateReDoSInputs p) =
     (if includes_str p ''5[1-5]'' \<or> includes_str p ''222'' then [22, 52, 102] else []) @
     (if includes_str p ''a-z'' \<and> includes_str p ''{2,}'' then [21, 51, 101] else []) @
     (if includes_str p ''hsla?'' then [45, 105, 205] else []) @
     (if includes_str p ''Mon|Tue|Wed'' then [29, 59, 109] else []) @
     (if includes_str p [bsl, CHR ''[''] \<and> includes_str p ''MM?M?M?'' then [22, 52, 102] else []) @
     (if includes_str p [bsl, CHR ''s'', bsl, CHR ''s'', CHR ''*''] then [21, 51, 101] else []) @
     (if \<not> (includes_str p ''5[1-5]'' \<or> includes_str p ''222'') \<and>
         \<not> (includes_str p ''a-z'' \<and> includes_str p ''{2,}'') \<and>
         \<not> includes_str p ''hsla?'' \<and> \<not> includes_str p ''Mon|Tue|Wed'' \<and>
         \<not> (includes_str p [bsl, CHR ''[''] \<and> includes_str p ''MM?M?M?'') \<and>
         \<not> includes_str p [bsl, CHR ''s'', bsl, CHR ''s'', CHR ''*'']
      then [21, 51, 101] else [])"
  unfolding generateReDoSInputs_def Let_def
  by (simp add: length_concat sum_list_replicate)

lemma ascendingTriples_append:
  "ascendingTriples xs \<Longrightarrow> ascendingTriples ys \<Longrightarrow> ascendingTriples (xs @ ys)"
  by (induction xs rule: ascendingTriples.induct) auto

lemma generateReDoSInputs_ascendingTriples:
  "ascendingTriples (map length (generateReDoSInputs p))"
  unfolding generateReDoSInputs_lengths
  by (intro ascendingTriples_append) simp_all

lemma generateReDoSInputs_three: "3 \<le> length (generateReDoSInputs p)"
proof -
  have "3 \<le> length (map length (generateReDoSInputs p))"
    unfolding generateReDoSInputs_lengths by simp
  then show ?thesis by simp
qed

text \<open>
  C9, as the code has it. \<open>generateReDoSInputs\<close> returns at least three inputs, in
  triples of strictly ascending length, one triple for each kind of pattern it recognises;
  \<open>benchmarkPattern\<close> records one sample for each input, in that order.
  \<open>generateTestInputs\<close> returns at least one input.
\<close>

theorem generateReDoSInputs_triples:
  "3 \<le> length (generateReDoSInputs p) \<and>
   ascendingTriples (map length (generateReDoSInputs p)) \<and>
   map inputLength (fst (forEachInput eng p f 0 (generateReDoSInputs p) rt [])) =
     map length (generateReDoSInputs p) \<and>
   1 \<le> length (generateTestInputs p)"
  using generateReDoSInputs_three [of p] generateReDoSInputs_ascendingTriples [of p]
    forEachInput_lengths [of eng p f 0 "generateReDoSInputs p" rt "[]"]
  by (simp add: generateTestInputs_def Let_def)

text \<open>
  C9, as the specification has it, fails: a pattern of two kinds gets two triples, and the
  lengths of the samples are 22, 52, 102, 21, 51, 101; \<open>generateTestInputs\<close> returns one
  input for it.
\<close>

theorem generateReDoSInputs_order_counterexample:
  "\<not> sorted_wrt (<)
       (map inputLength
          (fst (forEachInput slowEngine ''^[a-z]{2,}222$'' [] 0
                  (generateReDoSInputs ''^[a-z]{2,}222$'') rt0 []))) \<and>
   length (generateTestInputs ''^[a-z]{2,}222$'') = 1"
  by (simp add: forEachInput_lengths generateReDoSInputs_lengths generateTestInputs_def)

section \<open>Properties of the analysis\<close>

subsection \<open>The arrays after the loops\<close>

lemma foldl_push:
  assumes "\<And>acc x. step acc x = acc @ g x"
  shows "foldl step acc xs = acc @ concat (map g xs)"
  using assms by (induction xs arbitrary: acc) simp_all

lemma analyzeOne_safe:
  "map fst (safePatterns (analyzeOne det b p)) =
     map fst (safePatterns b) @ (if verdictOf det p = Some Safe then [p] else [])"
  by (simp add: analyzeOne_def verdictOf_def split: sum.splits)

lemma analyzeOne_vulnerable:
  "map fst (vulnerablePatterns (analyzeOne det b p)) =
     map fst (vulnerablePatterns b) @ (if verdictOf det p = Some Vulnerable then [p] else [])"
  by (simp add: analyzeOne_def verdictOf_def split: sum.splits)

lemma analyzeOne_error:
  "map fst (errorPatterns (analyzeOne det b p)) =
     map fst (errorPatterns b) @ (if verdictOf det p = Some Error then [p] else [])"
  by (simp add: analyzeOne_def verdictOf_def split: sum.splits)

lemma foldl_analyzeOne:
  "map fst (safePatterns (foldl (analyzeOne det) b ps)) =
     map fst (safePatterns b) @ filter (\<lambda>p. verdictOf det p = Some Safe) ps \<and>
   map fst (vulnerablePatterns (foldl (analyzeOne det) b ps)) =
     map fst (vulnerablePatterns b) @ filter (\<lambda>p. verdictOf det p = Some Vulnerable) ps \<and>
   map fst (errorPatterns (foldl (analyzeOne det) b ps)) =
     map fst (errorPatterns b) @ filter (\<lambda>p. verdictOf det p = Some Error) ps"
proof (induction ps arbitrary: b)
  case Nil
  then show ?case by simp
next
  case (Cons p ps)
  show ?case
    using Cons.IH [of "analyzeOne det b p"]
    by (simp add: analyzeOne_safe analyzeOne_vulnerable analyzeOne_error)
qed

lemma analyzeAll_buckets:
  "map fst (safePatterns (analyzeAll det allPatterns)) =
     filter (\<lambda>p. verdictOf det p = Some Safe) (take 100 allPatterns) \<and>
   map fst (vulnerablePatterns (analyzeAll det allPatterns)) =
     filter (\<lambda>p. verdictOf det p = Some Vulnerable) (take 100 allPatterns) \<and>
   map fst (errorPatterns (analyzeAll det allPatterns)) =
     filter (\<lambda>p. verdictOf det p = Some Error) (take 100 allPatterns)"
proof -
  have "take (min 100 (length allPatterns)) allPatterns = take 100 allPatterns"
    by (simp add: min_def)
  then show ?thesis
    using foldl_analyzeOne [of det noBuckets "take 100 allPatterns"]
    by (simp add: analyzeAll_def Let_def noBuckets_def)
qed

lemma analyzePattern_safe:
  "safe (analyzePattern det acc p) =
     safe acc @ (if quickVerdictOf det p = Some Safe then [p] else [])"
  by (simp add: analyzePattern_def quickVerdictOf_def split: sum.splits)

lemma analyzePattern_vulnerable:
  "map qpattern.truncate (vulnerable (analyzePattern det acc p)) =
     map qpattern.truncate (vulnerable acc) @
       (if quickVerdictOf det p = Some Vulnerable then [p] else [])"
  by (simp add: analyzePattern_def quickVerdictOf_def qpattern.truncate_def split: sum.splits)

lemma foldl_analyzePattern:
  "safe (foldl (analyzePattern det) acc ps) =
     safe acc @ filter (\<lambda>p. quickVerdictOf det p = Some Safe) ps \<and>
   map qpattern.truncate (vulnerable (foldl (analyzePattern det) acc ps)) =
     map qpattern.truncate (vulnerable acc) @
       filter (\<lambda>p. quickVerdictOf det p = Some Vulnerable) ps"
proof (induction ps arbitrary: acc)
  case Nil
  then show ?case by simp
next
  case (Cons p ps)
  show ?case
    using Cons.IH [of "analyzePattern det acc p"]
    by (simp add: analyzePattern_safe analyzePattern_vulnerable)
qed

lemma analyzePatterns_buckets:
  "safe (analyzePatterns det ps) = filter (\<lambda>p. quickVerdictOf det p = Some Safe) ps \<and>
   map qpattern.truncate (vulnerable (analyzePatterns det ps)) =
     filter (\<lambda>p. quickVerdictOf det p = Some Vulnerable) ps"
  using foldl_analyzePattern [of det "\<lparr>vulnerable = [], safe = []\<rparr>" ps]
  by (simp add: analyzePatterns_def)

subsection \<open>Verdicts\<close>

lemma verdict_count:
  "length (filter (\<lambda>p. v p = Some Safe) ps) + length (filter (\<lambda>p. v p = Some Vulnerable) ps) +
   length (filter (\<lambda>p. v p = Some Error) ps) = length (filter (\<lambda>p. v p \<noteq> None) ps)"
proof (induction ps)
  case Nil
  then show ?case by simp
next
  case (Cons p ps)
  then show ?case
  proof (cases "v p")
    case None
    with Cons show ?thesis by simp
  next
    case (Some b)
    with Cons show ?thesis by (cases b) simp_all
  qed
qed

text \<open>
  C3, as the code has it. \<open>analyzeProject\<close> gives a candidate a verdict, and one only,
  when it is among the first 100 of the project and \<open>verdictOf\<close> names an array for it:
  its flags do not hold both \<open>u\<close> and \<open>i\<close>, its pattern has no NUL and at most 300
  characters, and the error of its analysis, if any, is not one of the silent ones.
  \<open>analyzePatterns\<close> gives a verdict when the flags do not hold both \<open>u\<close> and \<open>i\<close>
  and the analysis raises no error. Every other candidate gets none.
\<close>

theorem verdicts_of_analysis:
  "map fst (safePatterns (analyzeAll det allPatterns)) =
     filter (\<lambda>p. verdictOf det p = Some Safe) (take 100 allPatterns) \<and>
   map fst (vulnerablePatterns (analyzeAll det allPatterns)) =
     filter (\<lambda>p. verdictOf det p = Some Vulnerable) (take 100 allPatterns) \<and>
   map fst (errorPatterns (analyzeAll det allPatterns)) =
     filter (\<lambda>p. verdictOf det p = Some Error) (take 100 allPatterns) \<and>
   length (safePatterns (analyzeAll det allPatterns)) +
   length (vulnerablePatterns (analyzeAll det allPatterns)) +
   length (errorPatterns (analyzeAll det allPatterns)) =
     length (filter (\<lambda>p. verdictOf det p \<noteq> None) (take 100 allPatterns)) \<and>
   safe (analyzePatterns det ps) = filter (\<lambda>p. quickVerdictOf det p = Some Safe) ps \<and>
   map qpattern.truncate (vulnerable (analyzePatterns det ps)) =
     filter (\<lambda>p. quickVerdictOf det p = Some Vulnerable) ps"
proof -
  note a = analyzeAll_buckets [of det allPatterns]
  have l1: "length (safePatterns (analyzeAll det allPatterns)) =
      length (filter (\<lambda>p. verdictOf det p = Some Safe) (take 100 allPatterns))"
    using arg_cong [OF a [THEN conjunct1], of length] by simp
  have l2: "length (vulnerablePatterns (analyzeAll det allPatterns)) =
      length (filter (\<lambda>p. verdictOf det p = Some Vulnerable) (take 100 allPatterns))"
    using arg_cong [OF a [THEN conjunct2, THEN conjunct1], of length] by simp
  have l3: "length (errorPatterns (analyzeAll det allPatterns)) =
      length (filter (\<lambda>p. verdictOf det p = Some Error) (take 100 allPatterns))"
    using arg_cong [OF a [THEN conjunct2, THEN conjunct2], of length] by simp
  have cnt: "length (safePatterns (analyzeAll det allPatterns)) +
      length (vulnerablePatterns (analyzeAll det allPatterns)) +
      length (errorPatterns (analyzeAll det allPatterns)) =
      length (filter (\<lambda>p. verdictOf det p \<noteq> None) (take 100 allPatterns))"
    unfolding l1 l2 l3 by (rule verdict_count)
  from a cnt analyzePatterns_buckets [of det ps] show ?thesis
    by blast
qed

text \<open>
  The version of \<open>analyzeProject\<close> without the limits gives every candidate one
  verdict.
\<close>

lemma foldl_analyzeOne_unlimited:
  "length (safePatterns (foldl (analyzeOne_unlimited det) b ps)) +
   length (vulnerablePatterns (foldl (analyzeOne_unlimited det) b ps)) +
   length (errorPatterns (foldl (analyzeOne_unlimited det) b ps)) =
     length (safePatterns b) + length (vulnerablePatterns b) + length (errorPatterns b) +
     length ps"
proof (induction ps arbitrary: b)
  case Nil
  then show ?case by simp
next
  case (Cons p ps)
  have "length (safePatterns (analyzeOne_unlimited det b p)) +
        length (vulnerablePatterns (analyzeOne_unlimited det b p)) +
        length (errorPatterns (analyzeOne_unlimited det b p)) =
        Suc (length (safePatterns b) + length (vulnerablePatterns b) + length (errorPatterns b))"
    by (simp add: analyzeOne_unlimited_def split: sum.splits)
  with Cons.IH [of "analyzeOne_unlimited det b p"] show ?case by simp
qed

lemma analyzeProject_unlimited_verdicts:
  "n_safePatterns (summary (analyzeProject_unlimited fs det jsFiles projectName)) +
   n_vulnerablePatterns (summary (analyzeProject_unlimited fs det jsFiles projectName)) +
   n_errorPatterns (summary (analyzeProject_unlimited fs det jsFiles projectName)) =
     totalPatterns (summary (analyzeProject_unlimited fs det jsFiles projectName))"
  using foldl_analyzeOne_unlimited
    [of det noBuckets "allPatternsOf (extractRegexFromFile_unfiltered fs) jsFiles"]
  by (simp add: analyzeProject_unlimited_def resultsOf_def Let_def noBuckets_def)

text \<open>The arrays that \<open>analyzeProject\<close> returns are those of the loop, \<open>safePatterns\<close> cut to ten.\<close>

lemma analyzeProject_arrays:
  "r_vulnerablePatterns (analyzeProject fs det jsFiles projectName) =
     vulnerablePatterns (analyzeAll det (allPatternsOf (extractRegexFromFile fs) jsFiles)) \<and>
   r_safePatterns (analyzeProject fs det jsFiles projectName) =
     take 10 (safePatterns (analyzeAll det (allPatternsOf (extractRegexFromFile fs) jsFiles))) \<and>
   r_errorPatterns (analyzeProject fs det jsFiles projectName) =
     errorPatterns (analyzeAll det (allPatternsOf (extractRegexFromFile fs) jsFiles))"
  by (simp add: analyzeProject_def resultsOf_def Let_def)

text \<open>
  C3, as the specification has it, fails: a candidate on which the analysis raises
  \<open>Invalid regular expression\<close> is pushed onto no array, by either script.
\<close>

theorem silent_error_counterexample:
  "analyzeAll rejectingDetector [unterminated] = noBuckets \<and>
   analyzePatterns rejectingDetector [unterminatedQuick] = \<lparr>vulnerable = [], safe = []\<rparr>"
  by code_simp

text \<open>
  C4, as the code has it. A candidate whose flags hold both \<open>u\<close> and \<open>i\<close> is skipped:
  it is in none of the arrays of \<open>analyzeProject\<close> and in none of \<open>analyzePatterns\<close>.
\<close>

theorem unicode_insensitive_skipped:
  "(includes_str (flags p) ''u'' \<and> includes_str (flags p) ''i'' \<longrightarrow>
      p \<notin> fst ` set (safePatterns (analyzeAll det allPatterns)) \<and>
      p \<notin> fst ` set (vulnerablePatterns (analyzeAll det allPatterns)) \<and>
      p \<notin> fst ` set (errorPatterns (analyzeAll det allPatterns))) \<and>
   (includes_str (flags q) ''u'' \<and> includes_str (flags q) ''i'' \<longrightarrow>
      q \<notin> set (safe (analyzePatterns det ps)) \<and>
      q \<notin> qpattern.truncate ` set (vulnerable (analyzePatterns det ps)))"
proof -
  have s: "fst ` set xs = set (map fst xs)" for xs :: "(patternInfo \<times> 'b) list"
    by simp
  have t: "qpattern.truncate ` set ys = set (map qpattern.truncate ys)"
    for ys :: "vulnerableEntry list"
    by simp
  show ?thesis
    unfolding s t
    using analyzeAll_buckets [of det allPatterns] analyzePatterns_buckets [of det ps]
    by (simp add: verdictOf_def quickVerdictOf_def)
qed

theorem unicode_insensitive_skipped_witness:
  "includes_str (flags unicodeCandidate) ''u'' \<and> includes_str (flags unicodeCandidate) ''i'' \<and>
   unicodeCandidate \<notin> fst ` set (safePatterns (analyzeAll safeDetector [unicodeCandidate])) \<and>
   unicodeCandidate \<notin> fst ` set (vulnerablePatterns (analyzeAll safeDetector [unicodeCandidate])) \<and>
   unicodeCandidate \<notin> fst ` set (errorPatterns (analyzeAll safeDetector [unicodeCandidate])) \<and>
   includes_str (flags unicodeQuick) ''u'' \<and> includes_str (flags unicodeQuick) ''i'' \<and>
   unicodeQuick \<notin> set (safe (analyzePatterns safeDetector [unicodeQuick])) \<and>
   unicodeQuick \<notin> qpattern.truncate ` set (vulnerable (analyzePatterns safeDetector [unicodeQuick]))"
proof -
  have u: "includes_str (flags unicodeCandidate) ''u'' \<and> includes_str (flags unicodeCandidate) ''i''"
    by (simp add: unicodeCandidate_def)
  have v: "includes_str (flags unicodeQuick) ''u'' \<and> includes_str (flags unicodeQuick) ''i''"
    by (simp add: unicodeQuick_def)
  from u v
    unicode_insensitive_skipped [of unicodeCandidate safeDetector "[unicodeCandidate]"
      unicodeQuick "[unicodeQuick]"]
  show ?thesis by blast
qed

text \<open>
  C4, as the specification has it, fails: the candidate \<open>/^[a-z]+$/ui\<close> gets no verdict
  and is in no array of the output.
\<close>

theorem unicode_insensitive_counterexample:
  "analyzeAll safeDetector [unicodeCandidate] = noBuckets \<and>
   analyzePatterns safeDetector [unicodeQuick] = \<lparr>vulnerable = [], safe = []\<rparr>"
  by (simp add: analyzeAll_def analyzeOne_def analyzePatterns_def analyzePattern_def
      unicodeCandidate_def unicodeQuick_def)

subsection \<open>Aggregation\<close>

lemma allPatternsOf_concat: "allPatternsOf extract jsFiles = concat (map extract jsFiles)"
proof -
  have "foldl (\<lambda>allPatterns f.
                 let patterns = extract f
                 in if length patterns > 0 then allPatterns @ patterns else allPatterns)
              [] jsFiles = [] @ concat (map extract jsFiles)"
    by (rule foldl_push) (simp add: Let_def)
  then show ?thesis by (simp add: allPatternsOf_def)
qed

lemma resultsFor_pushResults:
  "resultsFor k (pushResults name r allResults) =
     (if k = name
      then \<lparr>vulnerable = vulnerable (resultsFor k allResults) @ vulnerable r,
            safe = safe (resultsFor k allResults) @ safe r\<rparr>
      else resultsFor k allResults)"
  by (induction allResults) (auto simp: resultsFor_def)

lemma quickExtract_missing: "\<not> existsSync fs f \<Longrightarrow> quickExtract fs f = []"
  by (simp add: existsSync_def quickExtract_def)

lemma analyzePatterns_Nil: "analyzePatterns det [] = \<lparr>vulnerable = [], safe = []\<rparr>"
  by (simp add: analyzePatterns_def)

lemma resultsFor_analyzeFile:
  "resultsFor k (analyzeFile fs det allResults f) =
     (if projectNameOf f = k
      then \<lparr>vulnerable = vulnerable (resultsFor k allResults) @
                          vulnerable (analyzePatterns det (quickExtract fs f)),
            safe = safe (resultsFor k allResults) @
                     safe (analyzePatterns det (quickExtract fs f))\<rparr>
      else resultsFor k allResults)"
proof (cases "existsSync fs f \<and> quickExtract fs f \<noteq> []")
  case True
  then show ?thesis
    by (auto simp: analyzeFile_def Let_def resultsFor_pushResults)
next
  case False
  then have "quickExtract fs f = []" using quickExtract_missing by blast
  with False show ?thesis
    by (simp add: analyzeFile_def Let_def analyzePatterns_Nil)
qed

lemma resultsFor_foldl:
  "safe (resultsFor k (foldl (analyzeFile fs det) allResults files)) =
     safe (resultsFor k allResults) @
       concat (map (\<lambda>f. safe (analyzePatterns det (quickExtract fs f)))
                   (filter (\<lambda>f. projectNameOf f = k) files)) \<and>
   vulnerable (resultsFor k (foldl (analyzeFile fs det) allResults files)) =
     vulnerable (resultsFor k allResults) @
       concat (map (\<lambda>f. vulnerable (analyzePatterns det (quickExtract fs f)))
                   (filter (\<lambda>f. projectNameOf f = k) files))"
proof (induction files arbitrary: allResults)
  case Nil
  then show ?case by simp
next
  case (Cons f files)
  show ?case
    using Cons.IH [of "analyzeFile fs det allResults f"]
    by (simp add: resultsFor_analyzeFile)
qed

text \<open>
  C6, as the code has it. Nothing is deduplicated. The candidates of a project are the
  candidates of its files, one after the other, and the \<open>safe\<close> and \<open>vulnerable\<close> arrays
  of a project are those of its files, one after the other: a pattern found in two files
  has an entry for each, with the file it came from.
\<close>

theorem results_are_concatenated:
  "allPatternsOf extract jsFiles = concat (map extract jsFiles) \<and>
   safe (resultsFor k (analyzeFiles fs det files)) =
     concat (map (\<lambda>f. safe (analyzePatterns det (quickExtract fs f)))
                 (filter (\<lambda>f. projectNameOf f = k) files)) \<and>
   vulnerable (resultsFor k (analyzeFiles fs det files)) =
     concat (map (\<lambda>f. vulnerable (analyzePatterns det (quickExtract fs f)))
                 (filter (\<lambda>f. projectNameOf f = k) files))"
  using allPatternsOf_concat [of "extract" "jsFiles"] resultsFor_foldl [of k fs det "[]" "files"]
  by (simp add: analyzeFiles_def resultsFor_def)

text \<open>
  C6, as the specification has it, fails: the literal \<open>/^[a-z]+$/i\<close> stands in two of
  the target files, and the \<open>safe\<close> array of the project has two entries for it.
\<close>

theorem same_pattern_two_files_counterexample:
  "quickMain twoOrigins safeDetector =
     [(''validator.js'',
       \<lparr>vulnerable = [],
        safe = [\<lparr>pattern = ''^[a-z]+$'', flags = ''i'',
                 file = ''analysis/projects/validator.js/src/lib/isEmail.js''\<rparr>,
                \<lparr>pattern = ''^[a-z]+$'', flags = ''i'',
                 file = ''analysis/projects/validator.js/src/lib/isURL.js''\<rparr>]\<rparr>)]"
  by code_simp

section \<open>Properties of the extraction\<close>

subsection \<open>The matcher on a literal of plain letters\<close>

lemma ms_star_class:
  "\<forall>c\<in>set w. P c \<Longrightarrow> ms s (Star (Cls P)) (w, caps) = map (\<lambda>r. (r, caps)) (suffixes w)"
proof (induction w)
  case Nil
  then show ?case by simp
next
  case (Cons c w)
  then show ?case by simp
qed

lemma concat_suffixes_delimited:
  assumes "F [] = []" and "\<And>r. F (a # r) = []"
  shows "concat (map F (suffixes (replicate n a @ [d]))) = F [d]"
  using assms by (induction n) simp_all

lemma ms_flagLetters_Nil: "ms s flagLetters ([], caps) = [([], caps)]"
  by (simp add: flagLetters_def oneOf_def)

lemma ms_literalParts_slashed:
  "ms (slashed n) literalParts (slashed n, []) = [([], [(2, []), (1, replicate n CHR ''a'')])]"
proof -
  define s where "s = slashed n"
  define w where "w = replicate n CHR ''a'' @ ''/''"
  define R4 where "R4 = Seq (chr CHR ''/'') (Seq (Group 2 flagLetters) Eol)"
  define F where "F = (\<lambda>r. ms s R4 (r, [(1, take (length w - length r) w)]))"
  have sw: "s = CHR ''/'' # w" by (simp add: s_def w_def slashed_def)
  have dots: "\<forall>c\<in>set w. c \<notin> set [CHR 0x0A, CHR 0x0D]" by (auto simp: w_def)
  have star: "ms s (Star dot) (w, []) = map (\<lambda>r. (r, [])) (suffixes w)"
    unfolding dot_def noneOf_def using dots by (rule ms_star_class)
  have grp: "concat (map (ms s R4) (ms s (Group 1 (Star dot)) (w, []))) = concat (map F (suffixes w))"
    by (simp add: star F_def o_def del: ms.simps(6))
  have F0: "F [] = []" by (simp add: F_def R4_def chr_def)
  have Fa: "F (CHR ''a'' # r) = []" for r by (simp add: F_def R4_def chr_def)
  have Fd: "F ''/'' = [([], [(2, []), (1, replicate n CHR ''a'')])]"
    by (simp add: F_def R4_def chr_def ms_flagLetters_Nil w_def)
  have "concat (map F (suffixes w)) = F ''/''"
    unfolding w_def using F0 Fa by (rule concat_suffixes_delimited)
  with Fd grp have c: "concat (map (ms s R4) (ms s (Group 1 (Star dot)) (w, []))) =
      [([], [(2, []), (1, replicate n CHR ''a'')])]"
    by simp
  have "ms s literalParts (s, []) = concat (map (ms s R4) (ms s (Group 1 (Star dot)) (w, [])))"
    by (simp add: literalParts_def R4_def chr_def sw del: ms.simps(6,7))
  with c show ?thesis by (simp add: s_def)
qed

lemma exec_literalParts_slashed:
  "exec literalParts (slashed n) = Some [(2, []), (1, replicate n CHR ''a'')]"
proof -
  have "slashed n = CHR ''/'' # replicate n CHR ''a'' @ ''/''" by (simp add: slashed_def)
  then obtain cs where cs: "slashed n = CHR ''/'' # cs" by blast
  have "execFrom literalParts (slashed n) (CHR ''/'' # cs) = Some [(2, []), (1, replicate n CHR ''a'')]"
    using ms_literalParts_slashed [of n] by (simp add: cs del: ms.simps)
  then show ?thesis by (simp add: exec_def cs)
qed


lemma ms_star_delimited:
  assumes Xa: "\<And>r c. ms s X (a # r, c) = [(r, g c)]"
    and Xd: "\<And>c. ms s X ([d], c) = []"
    and Ka: "\<And>r c. K (a # r, c) = []"
  shows "concat (map K (ms s (Star X) (replicate n a @ [d], caps))) = K ([d], (g ^^ n) caps)"
proof (induction n arbitrary: caps)
  case 0
  have "ms s (Star X) ([d], caps) = [([d], caps)]"
    by (subst ms.simps(6)) (simp add: Xd del: ms.simps(6))
  then show ?case by simp
next
  case (Suc n)
  have "ms s (Star X) (a # replicate n a @ [d], caps) =
        ms s (Star X) (replicate n a @ [d], g caps) @ [(a # replicate n a @ [d], caps)]"
    by (subst ms.simps(6)) (simp add: Xa del: ms.simps(6))
  then have "concat (map K (ms s (Star X) (replicate (Suc n) a @ [d], caps))) =
             concat (map K (ms s (Star X) (replicate n a @ [d], g caps)))"
    by (simp add: Ka del: ms.simps(6))
  also have "\<dots> = K ([d], (g ^^ n) (g caps))" by (rule Suc.IH)
  finally show ?case by (simp add: funpow_swap1 del: ms.simps(6))
qed

lemma ms_regexPatterns0_slashed:
  "ms s regexPatterns0 (slashed (Suc n), []) =
     [([], ((\<lambda>c. (1, ''a'') # c) ^^ Suc n) [])]"
proof -
  define X where "X = Group 1 (Alt (noneOf [CHR ''/'', CHR 0x0A, CHR 0x0D, bsl])
                                  (Alt (Seq (chr bsl) (noneOf ''*'')) (Seq (chr bsl) dot)))"
  define K where "K = ms s (Seq (chr CHR ''/'') flagLetters)"
  have Xa: "ms s X (CHR ''a'' # r, c) = [(r, (1, ''a'') # c)]" for r c
    by (simp add: X_def noneOf_def chr_def bsl_def)
  have Xd: "ms s X (''/'', c) = []" for c
    by (simp add: X_def noneOf_def chr_def bsl_def)
  have Ka: "K (CHR ''a'' # r, c) = []" for r c by (simp add: K_def chr_def)
  have Kd: "K (''/'', c) = [([], c)]" for c by (simp add: K_def chr_def ms_flagLetters_Nil)
  have st: "concat (map K (ms s (Star X) (replicate (Suc n) CHR ''a'' @ ''/'', []))) =
            K (''/'', ((\<lambda>c. (1, ''a'') # c) ^^ Suc n) [])"
    using Xa Xd Ka by (rule ms_star_delimited)
  have "ms s regexPatterns0 (slashed (Suc n), []) =
        concat (map K (ms s (Star X) (replicate (Suc n) CHR ''a'' @ ''/'', [])))"
    by (simp add: regexPatterns0_def slashed_def K_def X_def chr_def oneOf_def
        del: ms.simps(6,7))
  with st Kd show ?thesis by (simp del: funpow.simps)
qed

lemma ms_regexPatterns0_Nil: "ms s regexPatterns0 ([], []) = []"
  by (simp add: regexPatterns0_def chr_def)

lemma matchGlobal_regexPatterns0_slashed:
  "matchGlobal regexPatterns0 (slashed (Suc n)) = [slashed (Suc n)]"
proof -
  have e: "matchAll regexPatterns0 (slashed (Suc n)) [] = []"
    using matchAll.simps [of regexPatterns0 "slashed (Suc n)" "[]"]
    by (simp add: ms_regexPatterns0_Nil)
  have l: "0 < length (slashed (Suc n))" by (simp add: slashed_def)
  show ?thesis
    unfolding matchGlobal_def
    using matchAll.simps [of regexPatterns0 "slashed (Suc n)" "slashed (Suc n)"] l
    by (simp add: ms_regexPatterns0_slashed e del: funpow.simps)
qed

lemma matchAll_no_start:
  assumes "\<And>rest. rest = [] \<or> hd rest \<noteq> c0 \<Longrightarrow> ms s r (rest, []) = []"
  shows "c0 \<notin> set rest \<Longrightarrow> matchAll r s rest = []"
proof (induction rest)
  case Nil
  show ?case using matchAll.simps [of r s "[]"] by (simp add: assms)
next
  case (Cons c cs)
  then have "ms s r (c # cs, []) = []" using assms [of "c # cs"] by auto
  with Cons show ?case using matchAll.simps [of r s "c # cs"] by simp
qed

lemma ms_regexPatterns1_start:
  "rest = [] \<or> hd rest \<noteq> CHR ''n'' \<Longrightarrow> ms s regexPatterns1 (rest, []) = []"
  by (cases rest) (simp_all add: regexPatterns1_def lit_def chr_def del: ms.simps(5,6,7))

lemma matchGlobal_regexPatterns1_slashed: "matchGlobal regexPatterns1 (slashed n) = []"
  unfolding matchGlobal_def
  by (rule matchAll_no_start [where ?c0.0 = "CHR ''n''"])
     (simp_all add: ms_regexPatterns1_start slashed_def)

lemma extract_unfiltered_slashed:
  "extractRegexFromFile_unfiltered (literalOf (Suc n)) ''src/a.js'' =
     [\<lparr>pattern = replicate (Suc n) CHR ''a'', flags = [], file = ''src/a.js'',
       type = literal, full = slashed (Suc n)\<rparr>]"
  by (simp add: extractRegexFromFile_unfiltered_def literalOf_def
      matchGlobal_regexPatterns0_slashed matchGlobal_regexPatterns1_slashed
      pushLiteral_unfiltered_def exec_literalParts_slashed)

subsection \<open>The filters\<close>

lemma pushLiteral_unfiltered_acc:
  "pushLiteral_unfiltered f ps m = ps @ pushLiteral_unfiltered f [] m"
  by (simp add: pushLiteral_unfiltered_def split: option.splits)

lemma pushConstructor_unfiltered_acc:
  "pushConstructor_unfiltered f ps m = ps @ pushConstructor_unfiltered f [] m"
  by (simp add: pushConstructor_unfiltered_def split: option.splits)

lemma pushLiteral_filter:
  "pushLiteral f ps m =
     ps @ filter (\<lambda>c. meaningful (pattern c)) (pushLiteral_unfiltered f [] m)"
  by (simp add: pushLiteral_def pushLiteral_unfiltered_def split: option.splits)

lemma pushConstructor_filter:
  "pushConstructor f ps m =
     ps @ filter (\<lambda>c. meaningful (pattern c)) (pushConstructor_unfiltered f [] m)"
  by (simp add: pushConstructor_def pushConstructor_unfiltered_def split: option.splits)

lemma pushQuick_filter:
  "pushQuick f ps m =
     ps @ map qpattern.truncate
            (filter (\<lambda>c. 5 < length (pattern c)) (pushLiteral_unfiltered f [] m))"
  by (simp add: pushQuick_def pushLiteral_unfiltered_def qpattern.truncate_def
      split: option.splits)

lemma pushLiteral_unfiltered_type:
  "c \<in> set (pushLiteral_unfiltered f [] m) \<Longrightarrow> type c = literal"
  by (auto simp: pushLiteral_unfiltered_def split: option.splits)

lemma pushConstructor_unfiltered_type:
  "c \<in> set (pushConstructor_unfiltered f [] m) \<Longrightarrow> type c = constructor"
  by (auto simp: pushConstructor_unfiltered_def split: option.splits)

lemma unfiltered_concat:
  "fs f = Some (Text content) \<Longrightarrow>
     extractRegexFromFile_unfiltered fs f =
       concat (map (pushLiteral_unfiltered f []) (matchGlobal regexPatterns0 content)) @
       concat (map (pushConstructor_unfiltered f []) (matchGlobal regexPatterns1 content))"
  using foldl_push [of "pushLiteral_unfiltered f" "pushLiteral_unfiltered f []", OF pushLiteral_unfiltered_acc]
    foldl_push [of "pushConstructor_unfiltered f" "pushConstructor_unfiltered f []", OF pushConstructor_unfiltered_acc]
  by (simp add: extractRegexFromFile_unfiltered_def Let_def)

lemma filtered_concat:
  "fs f = Some (Text content) \<Longrightarrow>
     extractRegexFromFile fs f =
       concat (map (\<lambda>m. filter (\<lambda>c. meaningful (pattern c)) (pushLiteral_unfiltered f [] m))
                   (matchGlobal regexPatterns0 content)) @
       concat (map (\<lambda>m. filter (\<lambda>c. meaningful (pattern c)) (pushConstructor_unfiltered f [] m))
                   (matchGlobal regexPatterns1 content))"
  using foldl_push [of "pushLiteral f"
      "\<lambda>m. filter (\<lambda>c. meaningful (pattern c)) (pushLiteral_unfiltered f [] m)", OF pushLiteral_filter]
    foldl_push [of "pushConstructor f"
      "\<lambda>m. filter (\<lambda>c. meaningful (pattern c)) (pushConstructor_unfiltered f [] m)", OF pushConstructor_filter]
  by (simp add: extractRegexFromFile_def Let_def)

lemma quick_concat:
  "fs f = Some (Text content) \<Longrightarrow>
     quickExtract fs f =
       concat (map (\<lambda>m. map qpattern.truncate
                            (filter (\<lambda>c. 5 < length (pattern c)) (pushLiteral_unfiltered f [] m)))
                   (matchGlobal regexPatterns0 content))"
  using foldl_push [of "pushQuick f"
      "\<lambda>m. map qpattern.truncate
              (filter (\<lambda>c. 5 < length (pattern c)) (pushLiteral_unfiltered f [] m))", OF pushQuick_filter]
  by (simp add: quickExtract_def Let_def)

lemma extract_is_filter:
  "extractRegexFromFile fs f =
     filter (\<lambda>c. meaningful (pattern c)) (extractRegexFromFile_unfiltered fs f)"
proof (cases "\<exists>content. fs f = Some (Text content)")
  case True
  then obtain content where c: "fs f = Some (Text content)" by blast
  show ?thesis
    unfolding unfiltered_concat [of fs f content, OF c] filtered_concat [of fs f content, OF c]
    by (simp add: filter_concat o_def)
next
  case False
  then show ?thesis
    by (auto simp: extractRegexFromFile_def extractRegexFromFile_unfiltered_def
        split: option.splits fsEntry.splits)
qed

lemma quick_is_filter:
  "quickExtract fs f =
     map qpattern.truncate
       (filter (\<lambda>c. type c = literal \<and> 5 < length (pattern c))
               (extractRegexFromFile_unfiltered fs f))"
proof (cases "\<exists>content. fs f = Some (Text content)")
  case True
  then obtain content where c: "fs f = Some (Text content)" by blast
  have l: "filter (\<lambda>c. type c = literal \<and> 5 < length (pattern c)) (pushLiteral_unfiltered f [] m) =
           filter (\<lambda>c. 5 < length (pattern c)) (pushLiteral_unfiltered f [] m)" for m
    by (rule filter_cong) (auto dest: pushLiteral_unfiltered_type)
  have k: "filter (\<lambda>c. type c = literal \<and> 5 < length (pattern c))
             (pushConstructor_unfiltered f [] m) = []" for m
    by (auto simp: filter_empty_conv dest: pushConstructor_unfiltered_type)
  show ?thesis
    unfolding unfiltered_concat [of fs f content, OF c] quick_concat [of fs f content, OF c]
    by (simp add: filter_concat map_concat o_def l k)
next
  case False
  then show ?thesis
    by (auto simp: quickExtract_def extractRegexFromFile_unfiltered_def
        split: option.splits fsEntry.splits)
qed

lemma meaningful_bounds:
  "meaningful p \<longleftrightarrow>
     6 \<le> length p \<and> length p \<le> 499 \<and>
     \<not> includes_str p [bsl, CHR ''n''] \<and> \<not> includes_str p [bsl, CHR ''r'']"
  by (auto simp: meaningful_def)

text \<open>
  C8, as the code has it. \<open>extractRegexFromFile\<close> returns the candidates, literal and
  constructed, whose pattern has at least 6 and at most 499 characters and holds neither
  backslash-n nor backslash-r; \<open>quickExtract\<close> returns the literal candidates whose
  pattern has at least 6 characters, however long. The candidates are those of the
  extractor without filters.
\<close>

theorem extraction_filters:
  "extractRegexFromFile fs f =
     filter (\<lambda>c. 6 \<le> length (pattern c) \<and> length (pattern c) \<le> 499 \<and>
                 \<not> includes_str (pattern c) [bsl, CHR ''n''] \<and>
                 \<not> includes_str (pattern c) [bsl, CHR ''r''])
            (extractRegexFromFile_unfiltered fs f) \<and>
   quickExtract fs f =
     map qpattern.truncate
       (filter (\<lambda>c. type c = literal \<and> 6 \<le> length (pattern c))
               (extractRegexFromFile_unfiltered fs f))"
proof -
  have "(\<lambda>c::patternInfo. type c = literal \<and> 6 \<le> length (pattern c)) =
        (\<lambda>c. type c = literal \<and> 5 < length (pattern c))"
    by auto
  then show ?thesis
    using extract_is_filter [of fs f] quick_is_filter [of fs f]
    by (simp add: meaningful_bounds)
qed

text \<open>
  C8, as the specification has it, fails: a literal of exactly 500 characters is a
  candidate and \<open>extractRegexFromFile\<close> drops it, and \<open>quickExtract\<close> keeps a
  literal of 501.
\<close>

theorem length_500_counterexample:
  "extractRegexFromFile_unfiltered (literalOf 500) ''src/a.js'' =
     [\<lparr>pattern = replicate 500 CHR ''a'', flags = [], file = ''src/a.js'',
       type = literal, full = slashed 500\<rparr>] \<and>
   extractRegexFromFile (literalOf 500) ''src/a.js'' = [] \<and>
   quickExtract (literalOf 501) ''src/a.js'' =
     [\<lparr>pattern = replicate 501 CHR ''a'', flags = [], file = ''src/a.js''\<rparr>]"
proof -
  have a: "extractRegexFromFile_unfiltered (literalOf 500) ''src/a.js'' =
     [\<lparr>pattern = replicate 500 CHR ''a'', flags = [], file = ''src/a.js'',
       type = literal, full = slashed 500\<rparr>]"
    using extract_unfiltered_slashed [of 499] by simp
  have b: "extractRegexFromFile_unfiltered (literalOf 501) ''src/a.js'' =
     [\<lparr>pattern = replicate 501 CHR ''a'', flags = [], file = ''src/a.js'',
       type = literal, full = slashed 501\<rparr>]"
    using extract_unfiltered_slashed [of 500] by simp
  show ?thesis
    unfolding extract_is_filter quick_is_filter a b
    by (simp add: meaningful_def qpattern.truncate_def)
qed

subsection \<open>Variable patterns and escaped line breaks\<close>

text \<open>
  C7. In a file that calls \<open>new RegExp(userInput, 'g')\<close>, the third pattern of
  \<open>regexPatterns\<close> finds the call, and \<open>extractRegexFromFile\<close>, with or without
  the filters, returns nothing: no reference to the variable pattern is recorded.
\<close>

theorem variable_constructor_not_extracted:
  "extractRegexFromFile variableCall ''src/a.js'' = [] \<and>
   extractRegexFromFile_unfiltered variableCall ''src/a.js'' = [] \<and>
   matchGlobal regexPatterns2
     (''const re = new RegExp(userInput, '' @ [CHR 0x27, CHR ''g'', CHR 0x27] @ '');'') =
     [''new RegExp(userInput, '' @ [CHR 0x27, CHR ''g'', CHR 0x27] @ '')'']"
  by code_simp

text \<open>
  The literal \<open>/abc\ndef/\<close> has 8 characters; the extractor without the filters
  returns it and \<open>extractRegexFromFile\<close> does not.
\<close>

lemma escapedNewline_unfiltered:
  "map pattern (extractRegexFromFile_unfiltered escapedNewline ''src/a.js'') =
     [''abc'' @ [bsl] @ ''ndef'', ''abcdef'']"
  by code_simp

lemma escapedNewline_filtered:
  "extractRegexFromFile escapedNewline ''src/a.js'' =
     [\<lparr>pattern = ''abcdef'', flags = ''g'', file = ''src/a.js'',
       type = literal, full = ''/abcdef/g''\<rparr>]"
  by code_simp

lemma extract_meaningful:
  "c \<in> set (extractRegexFromFile fs f) \<Longrightarrow> meaningful (pattern c)"
proof -
  assume "c \<in> set (extractRegexFromFile fs f)"
  then have "c \<in> set (filter (\<lambda>c. meaningful (pattern c)) (extractRegexFromFile_unfiltered fs f))"
    by (simp only: extract_is_filter [of fs f])
  then show ?thesis by simp
qed

lemma allPatternsOf_meaningful:
  "c \<in> set (allPatternsOf (extractRegexFromFile fs) jsFiles) \<Longrightarrow> meaningful (pattern c)"
  by (auto simp: allPatternsOf_concat dest: extract_meaningful)

lemma analyzeAll_subset:
  "fst ` set (safePatterns (analyzeAll det ps)) \<union>
   fst ` set (vulnerablePatterns (analyzeAll det ps)) \<union>
   fst ` set (errorPatterns (analyzeAll det ps)) \<subseteq> set ps"
proof -
  have s: "fst ` set xs = set (map fst xs)" for xs :: "(patternInfo \<times> 'b) list"
    by simp
  show ?thesis
    unfolding s using analyzeAll_buckets [of det ps]
    by (auto dest: in_set_takeD)
qed

text \<open>
  C10. No candidate that \<open>extractRegexFromFile\<close> returns holds backslash-n or
  backslash-r in its pattern, and no candidate in an array of \<open>analyzeProject\<close> does:
  such a pattern gets no verdict.
\<close>

theorem escaped_newline_excluded:
  "(c \<in> set (extractRegexFromFile fs f) \<longrightarrow>
      \<not> includes_str (pattern c) [bsl, CHR ''n''] \<and>
      \<not> includes_str (pattern c) [bsl, CHR ''r'']) \<and>
   (p \<in> fst ` set (safePatterns
                      (analyzeAll det (allPatternsOf (extractRegexFromFile fs) jsFiles))) \<union>
        fst ` set (vulnerablePatterns
                      (analyzeAll det (allPatternsOf (extractRegexFromFile fs) jsFiles))) \<union>
        fst ` set (errorPatterns
                      (analyzeAll det (allPatternsOf (extractRegexFromFile fs) jsFiles))) \<longrightarrow>
      \<not> includes_str (pattern p) [bsl, CHR ''n''] \<and>
      \<not> includes_str (pattern p) [bsl, CHR ''r''])"
proof -
  have "p \<in> set (allPatternsOf (extractRegexFromFile fs) jsFiles)"
    if "p \<in> fst ` set (safePatterns
                      (analyzeAll det (allPatternsOf (extractRegexFromFile fs) jsFiles))) \<union>
        fst ` set (vulnerablePatterns
                      (analyzeAll det (allPatternsOf (extractRegexFromFile fs) jsFiles))) \<union>
        fst ` set (errorPatterns
                      (analyzeAll det (allPatternsOf (extractRegexFromFile fs) jsFiles)))"
    using that analyzeAll_subset [of det "allPatternsOf (extractRegexFromFile fs) jsFiles"]
    by blast
  then show ?thesis
    using extract_meaningful [of c fs f] allPatternsOf_meaningful [of p fs jsFiles]
    by (auto simp: meaningful_def)
qed

theorem escaped_newline_excluded_witness:
  "plainCandidate \<in> set (extractRegexFromFile escapedNewline ''src/a.js'') \<and>
   \<not> includes_str (pattern plainCandidate) [bsl, CHR ''n''] \<and>
   \<not> includes_str (pattern plainCandidate) [bsl, CHR ''r''] \<and>
   plainCandidate \<in>
     fst ` set (safePatterns (analyzeAll safeDetector
                  (allPatternsOf (extractRegexFromFile escapedNewline) [''src/a.js'']))) \<and>
   map pattern (extractRegexFromFile_unfiltered escapedNewline ''src/a.js'') =
     [''abc'' @ [bsl] @ ''ndef'', ''abcdef'']"
proof -
  have e: "extractRegexFromFile escapedNewline ''src/a.js'' = [plainCandidate]"
    by (simp add: escapedNewline_filtered plainCandidate_def)
  have m: "plainCandidate \<in> set (extractRegexFromFile escapedNewline ''src/a.js'')"
    by (simp add: e)
  have a: "allPatternsOf (extractRegexFromFile escapedNewline) [''src/a.js''] = [plainCandidate]"
    by (simp add: allPatternsOf_concat e)
  have v: "verdictOf safeDetector plainCandidate = Some Safe"
    by (simp add: verdictOf_def plainCandidate_def safeDetector_def)
  have s: "fst ` set xs = set (map fst xs)" for xs :: "(patternInfo \<times> 'b) list"
    by simp
  have b: "plainCandidate \<in>
     fst ` set (safePatterns (analyzeAll safeDetector
                  (allPatternsOf (extractRegexFromFile escapedNewline) [''src/a.js''])))"
    unfolding a s using analyzeAll_buckets [of safeDetector "[plainCandidate]"] v by simp
  from m b escaped_newline_excluded [of plainCandidate escapedNewline "''src/a.js''"
      plainCandidate safeDetector "[''src/a.js'']"] escapedNewline_unfiltered
  show ?thesis by blast
qed

section \<open>The benchmark on the results of the analysis\<close>













end
